theory Spec2Isabelle
  imports Complex_Main
begin

section \<open>bench\_generation.py: a shallow embedding\<close>

text \<open>
  The script \<^verbatim>\<open>examples/pytorch/text-generation/bench_generation.py\<close> times a text
  generation routine over warmup and measured runs. Python integers are \<open>int\<close>, counts
  and list lengths are \<open>nat\<close>, strings are \<open>string\<close> (ASCII text), and the wall-clock
  times and the quotients computed from them are exact rationals (\<open>rat\<close>): the rounding
  of Python's binary floating point is not part of the model. Every \<^verbatim>\<open>raise\<close> of the
  script, and every exception of the interpreter and of the libraries it calls, is a value
  of the type \<open>error\<close>; a function that can raise returns \<open>error + 'a\<close>.
\<close>

subsection \<open>Errors\<close>

datatype error =
    KeyError string
  | ValueError string
  | IndexError
  | AttributeError
  | ZeroDivisionError
  | StatisticsError
  | EOFError
  | LibraryError string

subsection \<open>Module constants and \<open>adjust_length_to_model\<close>\<close>

definition MAX_LENGTH :: int where
  "MAX_LENGTH = 10000"

text \<open>
  \<^verbatim>\<open>
  def adjust_length_to_model(length, max_sequence_length):
      if length < 0 and max_sequence_length > 0:
          length = max_sequence_length
      elif 0 < max_sequence_length < length:
          length = max_sequence_length  # No generation bigger than model size
      elif length < 0:
          length = MAX_LENGTH  # avoid infinite loop
      return length
  \<close>
\<close>

definition adjust_length_to_model :: "int \<Rightarrow> int \<Rightarrow> int" where
  "adjust_length_to_model length' max_sequence_length =
     (if length' < 0 \<and> max_sequence_length > 0 then max_sequence_length
      else if 0 < max_sequence_length \<and> max_sequence_length < length' then max_sequence_length
      else if length' < 0 then MAX_LENGTH
      else length')"

subsection \<open>Python string and list primitives\<close>

text \<open>
  \<^verbatim>\<open>str.lower()\<close> on ASCII text: the letters A to Z go to a to z, every other
  character stays.
\<close>

definition lower_char :: "char \<Rightarrow> char" where
  "lower_char c =
     (case map_of (zip ''ABCDEFGHIJKLMNOPQRSTUVWXYZ'' ''abcdefghijklmnopqrstuvwxyz'') c of
        None \<Rightarrow> c
      | Some l \<Rightarrow> l)"

definition lower :: "string \<Rightarrow> string" where
  "lower s = map lower_char s"

text \<open>
  \<^verbatim>\<open>text.find(sub)\<close>: the lowest index at which \<open>sub\<close> starts in \<open>text\<close>, and
  \<open>-1\<close> when it starts nowhere. \<open>find_from text sub i\<close> scans a suffix of the text
  that begins at index \<open>i\<close>.
\<close>

fun find_from :: "string \<Rightarrow> string \<Rightarrow> nat \<Rightarrow> int" where
  "find_from [] sub i = (if sub = [] then int i else - 1)"
| "find_from (c # cs) sub i =
     (if take (length sub) (c # cs) = sub then int i else find_from cs sub (Suc i))"

definition find_str :: "string \<Rightarrow> string \<Rightarrow> int" where
  "find_str text sub = find_from text sub 0"

text \<open>
  The slice \<^verbatim>\<open>text[:k]\<close>: \<open>None\<close> keeps everything, a non-negative bound keeps
  that many items, a negative bound counts from the end.
\<close>

definition slice_to :: "'a list \<Rightarrow> int option \<Rightarrow> 'a list" where
  "slice_to xs k =
     (case k of
        None \<Rightarrow> xs
      | Some j \<Rightarrow> if j < 0 then take (nat (int (length xs) + j)) xs else take (nat j) xs)"

text \<open>The slice \<^verbatim>\<open>text[n:]\<close> for a length \<open>n\<close>, which is never negative.\<close>

definition slice_from :: "'a list \<Rightarrow> nat \<Rightarrow> 'a list" where
  "slice_from xs n = drop n xs"

text \<open>
  \<^verbatim>\<open>statistics.median(data)\<close> of the standard library: sort, fail on no data, take
  the middle item of an odd number of items and the mean of the two middle items of an
  even number.
\<close>

definition median :: "rat list \<Rightarrow> error + rat" where
  "median data =
     (let data' = sort data; n = length data' in
      if n = 0 then Inl StatisticsError
      else if n mod 2 = 1 then Inr (data' ! (n div 2))
      else (let i = n div 2 in Inr ((data' ! (i - 1) + data' ! i) / 2)))"

subsection \<open>The table of supported models\<close>

datatype model_class =
    GPT2LMHeadModel | CTRLLMHeadModel | OpenAIGPTLMHeadModel | XLNetLMHeadModel
  | TransfoXLLMHeadModel | XLMWithLMHeadModel | GPTJForCausalLM | BloomForCausalLM
  | LlamaForCausalLM | OPTForCausalLM

datatype tokenizer_class =
    GPT2Tokenizer | CTRLTokenizer | OpenAIGPTTokenizer | XLNetTokenizer | TransfoXLTokenizer
  | XLMTokenizer | AutoTokenizer | BloomTokenizerFast | LlamaTokenizer

definition MODEL_CLASSES :: "(string \<times> model_class \<times> tokenizer_class) list" where
  "MODEL_CLASSES =
     [(''gpt2'', GPT2LMHeadModel, GPT2Tokenizer),
      (''ctrl'', CTRLLMHeadModel, CTRLTokenizer),
      (''openai-gpt'', OpenAIGPTLMHeadModel, OpenAIGPTTokenizer),
      (''xlnet'', XLNetLMHeadModel, XLNetTokenizer),
      (''transfo-xl'', TransfoXLLMHeadModel, TransfoXLTokenizer),
      (''xlm'', XLMWithLMHeadModel, XLMTokenizer),
      (''gptj'', GPTJForCausalLM, AutoTokenizer),
      (''bloom'', BloomForCausalLM, BloomTokenizerFast),
      (''llama'', LlamaForCausalLM, LlamaTokenizer),
      (''opt'', OPTForCausalLM, GPT2Tokenizer)]"

text \<open>The name Python reports as \<^verbatim>\<open>model.__class__.__name__\<close>.\<close>

fun class_name_of :: "model_class \<Rightarrow> string" where
  "class_name_of GPT2LMHeadModel = ''GPT2LMHeadModel''"
| "class_name_of CTRLLMHeadModel = ''CTRLLMHeadModel''"
| "class_name_of OpenAIGPTLMHeadModel = ''OpenAIGPTLMHeadModel''"
| "class_name_of XLNetLMHeadModel = ''XLNetLMHeadModel''"
| "class_name_of TransfoXLLMHeadModel = ''TransfoXLLMHeadModel''"
| "class_name_of XLMWithLMHeadModel = ''XLMWithLMHeadModel''"
| "class_name_of GPTJForCausalLM = ''GPTJForCausalLM''"
| "class_name_of BloomForCausalLM = ''BloomForCausalLM''"
| "class_name_of LlamaForCausalLM = ''LlamaForCausalLM''"
| "class_name_of OPTForCausalLM = ''OPTForCausalLM''"

text \<open>
  The message of the \<^verbatim>\<open>KeyError\<close> that \<^verbatim>\<open>main\<close> raises for an unsupported model
  type. The source never fills in the braces.
\<close>

definition unsupported_message :: string where
  "unsupported_message =
     ''the model {} you specified is not supported. You are welcome to add it and open a PR :)''"

text \<open>
  \<^verbatim>\<open>
  try:
      args.model_type = args.model_type.lower()
      model_class, tokenizer_class = MODEL_CLASSES[args.model_type]
  except KeyError:
      raise KeyError("the model {} you specified is not supported. ...")
  \<close>
  The result carries the lowercased model type, which the script stores back in
  \<^verbatim>\<open>args.model_type\<close>.
\<close>

definition resolve_model_type ::
  "string \<Rightarrow> error + (string \<times> model_class \<times> tokenizer_class)" where
  "resolve_model_type model_type =
     (let model_type' = lower model_type in
      case map_of MODEL_CLASSES model_type' of
        None \<Rightarrow> Inl (KeyError unsupported_message)
      | Some (model_class, tokenizer_class) \<Rightarrow> Inr (model_type', model_class, tokenizer_class))"

subsection \<open>Arguments, collaborators and records\<close>

text \<open>
  The parsed command line. The flags that only choose the device and the numeric precision
  (\<^verbatim>\<open>use_cpu\<close>, \<^verbatim>\<open>fp16\<close>, \<^verbatim>\<open>torch_dtype\<close>, \<^verbatim>\<open>device_map\<close>, \<^verbatim>\<open>cache_dir\<close>)
  do not reach any value modelled here and are left out.
\<close>

record args =
  arg_model_type :: string
  arg_model_name_or_path :: string
  arg_prompt :: string
  arg_length :: int
  arg_stop_token :: "string option"
  arg_temperature :: rat
  arg_repetition_penalty :: rat
  arg_k :: int
  arg_p :: rat
  arg_prefix :: string
  arg_padding_text :: string
  arg_xlm_language :: string
  arg_seed :: int
  arg_num_return_sequences :: int
  arg_jit :: bool
  arg_use_cache :: string
  arg_n_warmup_runs :: int
  arg_n_runs :: int
  arg_output_sequences :: bool
  arg_same_seed :: bool
  arg_records_file :: string
  arg_metrics_file :: string
  arg_max_new_tokens :: "int option"
  arg_min_new_tokens :: "int option"
  arg_preset_prompt :: "string option"
  arg_print_records :: bool

text \<open>
  The tokenizer: \<open>encode\<close> takes the flag \<^verbatim>\<open>add_space_before_punct_symbol\<close> and the
  text and gives one row of token ids; \<open>decode\<close> gives the text of a row of token ids;
  \<open>control_codes\<close> are the values of \<^verbatim>\<open>tokenizer.control_codes\<close> (CTRL only).
\<close>

record tokenizer =
  encode :: "bool \<Rightarrow> string \<Rightarrow> int list"
  decode :: "int list \<Rightarrow> string"
  control_codes :: "int list"

text \<open>The keyword arguments of one \<^verbatim>\<open>model.generate(...)\<close> call.\<close>

record generate_call =
  g_use_cache :: bool
  g_input_ids :: "int list option"
  g_max_length :: int
  g_max_new_tokens :: "int option"
  g_min_new_tokens :: "int option"
  g_temperature :: rat
  g_top_k :: int
  g_top_p :: rat
  g_repetition_penalty :: rat
  g_do_sample :: bool
  g_num_return_sequences :: int

text \<open>
  The loaded model. \<open>max_position_embeddings\<close> is \<open>None\<close> when the configuration has no
  such attribute; \<open>use_lang_emb\<close> is true when the attribute exists and is true;
  \<open>lang2id\<close> is \<open>None\<close> when the configuration has no such attribute, \<open>Some None\<close> when the
  attribute is \<^verbatim>\<open>None\<close>, and otherwise the keys of the dictionary. Sampling reads
  the global random state, so \<open>generate\<close> is given the seed last set and the number of
  sampling calls made since then; it returns the rows of the output tensor or raises.
\<close>

record model =
  class_name :: string
  max_position_embeddings :: "int option"
  use_lang_emb :: bool
  lang2id :: "string list option option"
  generate :: "int \<times> nat \<Rightarrow> generate_call \<Rightarrow> error + int list list"

text \<open>One entry of \<^verbatim>\<open>records\<close>; the last three keys exist only with \<^verbatim>\<open>--output_sequences\<close>.\<close>

record bench_record =
  latency :: rat
  warmup :: bool
  input_lengths :: "nat list"
  output_lengths :: "nat list"
  total_tokens :: nat
  batch_size :: nat
  max_length :: int
  max_new_tokens :: "int option"
  min_new_tokens :: "int option"
  tokens_per_second :: rat
  input_sequences :: "int list list option"
  output_sequences :: "int list list option"
  outputs :: "string list option"

text \<open>
  What the script finds outside itself: the preset prompt files next to the script (the
  content of \<^verbatim>\<open>prompts/<name>.txt\<close>, or \<open>None\<close> where there is no such file), the
  loaders of the library, the tracing compiler (which gives the generation routine of the
  traced model), the wall-clock time each iteration takes (\<^verbatim>\<open>end_time - start_time\<close>,
  by iteration index) and the lines waiting on standard input.
\<close>

record world =
  script_dir :: string
  prompt_files :: "string \<Rightarrow> string option"
  tokenizer_from_pretrained :: "tokenizer_class \<Rightarrow> string \<Rightarrow> error + tokenizer"
  model_from_pretrained :: "model_class \<Rightarrow> string \<Rightarrow> error + model"
  jit_trace :: "model \<Rightarrow> tokenizer \<Rightarrow> error + (int \<times> nat \<Rightarrow> generate_call \<Rightarrow> error + int list list)"
  elapsed :: "nat \<Rightarrow> rat"
  stdin :: "string list"

text \<open>
  What \<^verbatim>\<open>main\<close> has in hand when the benchmark loop starts: the arguments (with the
  model type lowercased, the length adjusted and the preset prompt read), the cache flag,
  the tokenizer, the model, the prompt text and the clock.
\<close>

record bench_setup =
  su_args :: args
  su_use_cache :: bool
  su_tokenizer :: tokenizer
  su_model :: model
  su_prompt_text :: string
  su_elapsed :: "nat \<Rightarrow> rat"

text \<open>What the process does to the outside, in order.\<close>

datatype event =
    LoadTokenizer tokenizer_class string
  | LoadModel model_class string
  | TraceModel
  | WriteRecords string "bench_record list"
  | WriteMetrics string "(string \<times> rat) list"

subsection \<open>Preparing the models' input\<close>

definition PREFIX :: string where
  "PREFIX =
      ''In 1991, the remains of Russian Tsar Nicholas II and his family'' @ [CHR 0x0A] @
      ''(except for Alexei and Maria) are discovered.'' @ [CHR 0x0A] @
      ''The voice of Nicholas'' @ [CHR 0x27] @ ''s young son, Tsarevich Alexei Nikolaevich, narrates the'' @ [CHR 0x0A] @
      ''remainder of the story. 1883 Western Siberia,'' @ [CHR 0x0A] @
      ''a young Grigori Rasputin is asked by his father and a group of men to perform magic.'' @ [CHR 0x0A] @
      ''Rasputin has a vision and denounces one of the men as a horse thief. Although his'' @ [CHR 0x0A] @
      ''father initially slaps him for making such an accusation, Rasputin watches as the'' @ [CHR 0x0A] @
      ''man is chased outside and beaten. Twenty years later, Rasputin sees a vision of'' @ [CHR 0x0A] @
      ''the Virgin Mary, prompting him to become a priest. Rasputin quickly becomes famous,'' @ [CHR 0x0A] @
      ''with people, even a bishop, begging for his blessing. <eod> </s> <eos>''"

text \<open>\<^verbatim>\<open>input()\<close>: the next line of standard input, or \<^verbatim>\<open>EOFError\<close> at its end.\<close>

definition input_line :: "string list \<Rightarrow> error + (string \<times> string list)" where
  "input_line lines = (case lines of [] \<Rightarrow> Inl EOFError | l # ls \<Rightarrow> Inr (l, ls))"

text \<open>
  Each preparing function takes the arguments, the model, the tokenizer, the prompt text
  and the lines waiting on standard input, and gives the prepared text and the lines left.
  Log messages are not modelled.

  \<^verbatim>\<open>
  def prepare_ctrl_input(args, _, tokenizer, prompt_text):
      ...
      encoded_prompt = tokenizer.encode(prompt_text, add_special_tokens=False)
      if not any(encoded_prompt[0] == x for x in tokenizer.control_codes.values()):
          logger.info(...)
      return prompt_text
  \<close>
  \<^verbatim>\<open>encoded_prompt[0]\<close> is evaluated for the first control code, and raises on an
  empty encoding.
\<close>

definition prepare_ctrl_input ::
  "args \<Rightarrow> model \<Rightarrow> tokenizer \<Rightarrow> string \<Rightarrow> string list \<Rightarrow> error + (string \<times> string list)" where
  "prepare_ctrl_input args m tok prompt_text lines =
     (let encoded_prompt = encode tok False prompt_text in
      if control_codes tok \<noteq> [] \<and> encoded_prompt = [] then Inl IndexError
      else Inr (prompt_text, lines))"

text \<open>
  \<^verbatim>\<open>
  language = None
  while language not in available_languages:
      language = input("Using XLM. Select language in ... >>> ")
  \<close>
\<close>

fun select_language :: "string list \<Rightarrow> string list \<Rightarrow> error + (string \<times> string list)" where
  "select_language available_languages [] = Inl EOFError"
| "select_language available_languages (l # ls) =
     (if l \<in> set available_languages then Inr (l, ls)
      else select_language available_languages ls)"

text \<open>
  \<^verbatim>\<open>
  def prepare_xlm_input(args, model, tokenizer, prompt_text):
      use_lang_emb = hasattr(model.config, "use_lang_emb") and model.config.use_lang_emb
      if hasattr(model.config, "lang2id") and use_lang_emb:
          available_languages = model.config.lang2id.keys()
          if args.xlm_language in available_languages:
              language = args.xlm_language
          else:
              (the loop above)
          model.config.lang_id = model.config.lang2id[language]
      return prompt_text
  \<close>
  The language id set in the configuration is read by the generation routine only.
\<close>

definition prepare_xlm_input ::
  "args \<Rightarrow> model \<Rightarrow> tokenizer \<Rightarrow> string \<Rightarrow> string list \<Rightarrow> error + (string \<times> string list)" where
  "prepare_xlm_input args m tok prompt_text lines =
     (case lang2id m of
        None \<Rightarrow> Inr (prompt_text, lines)
      | Some keys \<Rightarrow>
          if \<not> use_lang_emb m then Inr (prompt_text, lines)
          else (case keys of
                  None \<Rightarrow> Inl AttributeError
                | Some available_languages \<Rightarrow>
                    if arg_xlm_language args \<in> set available_languages
                    then Inr (prompt_text, lines)
                    else (case select_language available_languages lines of
                            Inl e \<Rightarrow> Inl e
                          | Inr (language, lines') \<Rightarrow> Inr (prompt_text, lines'))))"

text \<open>
  \<^verbatim>\<open>
  def prepare_xlnet_input(args, _, tokenizer, prompt_text):
      prefix = args.prefix if args.prefix else args.padding_text if args.padding_text else PREFIX
      prompt_text = prefix + prompt_text
      return prompt_text
  \<close>
  and the same body for \<^verbatim>\<open>prepare_transfoxl_input\<close>.
\<close>

definition prepare_xlnet_input ::
  "args \<Rightarrow> model \<Rightarrow> tokenizer \<Rightarrow> string \<Rightarrow> string list \<Rightarrow> error + (string \<times> string list)" where
  "prepare_xlnet_input args m tok prompt_text lines =
     (let prefix = (if arg_prefix args \<noteq> [] then arg_prefix args
                    else if arg_padding_text args \<noteq> [] then arg_padding_text args
                    else PREFIX)
      in Inr (prefix @ prompt_text, lines))"

definition prepare_transfoxl_input ::
  "args \<Rightarrow> model \<Rightarrow> tokenizer \<Rightarrow> string \<Rightarrow> string list \<Rightarrow> error + (string \<times> string list)" where
  "prepare_transfoxl_input args m tok prompt_text lines =
     (let prefix = (if arg_prefix args \<noteq> [] then arg_prefix args
                    else if arg_padding_text args \<noteq> [] then arg_padding_text args
                    else PREFIX)
      in Inr (prefix @ prompt_text, lines))"

definition PREPROCESSING_FUNCTIONS ::
  "(string \<times> (args \<Rightarrow> model \<Rightarrow> tokenizer \<Rightarrow> string \<Rightarrow> string list
      \<Rightarrow> error + (string \<times> string list))) list" where
  "PREPROCESSING_FUNCTIONS =
     [(''ctrl'', prepare_ctrl_input),
      (''xlm'', prepare_xlm_input),
      (''xlnet'', prepare_xlnet_input),
      (''transfo-xl'', prepare_transfoxl_input)]"

subsection \<open>One iteration of the benchmark loop\<close>

text \<open>
  \<^verbatim>\<open>
  if requires_preprocessing:
      prepare_input = PREPROCESSING_FUNCTIONS.get(args.model_type)
      preprocessed_prompt_text = prepare_input(args, model, tokenizer, prompt_text)
      if model.__class__.__name__ in ["TransfoXLLMHeadModel"]:
          tokenizer_kwargs = {"add_space_before_punct_symbol": True}
      else:
          tokenizer_kwargs = {}
      encoded_prompt = tokenizer.encode(preprocessed_prompt_text, ..., **tokenizer_kwargs)
  else:
      prefix = args.prefix if args.prefix else args.padding_text
      encoded_prompt = tokenizer.encode(prefix + prompt_text, ...)
  \<close>
  The encoded prompt is a tensor of one row; the model keeps the row.
\<close>

definition tokenize_prompt :: "bench_setup \<Rightarrow> string list \<Rightarrow> error + (int list \<times> string list)" where
  "tokenize_prompt su lines =
     (let args = su_args su; m = su_model su; tok = su_tokenizer su;
          prompt_text = su_prompt_text su in
      case map_of PREPROCESSING_FUNCTIONS (arg_model_type args) of
        Some prepare_input \<Rightarrow>
          (case prepare_input args m tok prompt_text lines of
             Inl e \<Rightarrow> Inl e
           | Inr (preprocessed_prompt_text, lines') \<Rightarrow>
               Inr (encode tok (class_name m = ''TransfoXLLMHeadModel'') preprocessed_prompt_text,
                    lines'))
      | None \<Rightarrow>
          (let prefix = (if arg_prefix args \<noteq> [] then arg_prefix args else arg_padding_text args)
           in Inr (encode tok False (prefix @ prompt_text), lines)))"

text \<open>
  \<^verbatim>\<open>
  if encoded_prompt.size()[-1] == 0:
      input_ids = None
  else:
      input_ids = encoded_prompt
  \<close>
\<close>

definition input_ids_of :: "int list \<Rightarrow> int list option" where
  "input_ids_of encoded_prompt =
     (if length encoded_prompt = 0 then None else Some encoded_prompt)"

text \<open>
  \<^verbatim>\<open>
  # Remove all text after the stop token
  text = text[: text.find(args.stop_token) if args.stop_token else None]
  \<close>
  An absent stop token and the empty string are both false in Python.
\<close>

definition stop_index :: "string option \<Rightarrow> string \<Rightarrow> int option" where
  "stop_index stop_token text =
     (case stop_token of
        None \<Rightarrow> None
      | Some t \<Rightarrow> if t = [] then None else Some (find_str text t))"

definition truncate_at_stop :: "string option \<Rightarrow> string \<Rightarrow> string" where
  "truncate_at_stop stop_token text = slice_to text (stop_index stop_token text)"

text \<open>
  \<^verbatim>\<open>
  text = tokenizer.decode(generated_sequence, clean_up_tokenization_spaces=True)
  text = text[: text.find(args.stop_token) if args.stop_token else None]
  total_sequence = (
      prompt_text + text[len(tokenizer.decode(encoded_prompt[0], ...)) :]
  )
  \<close>
\<close>

definition total_sequence :: "bench_setup \<Rightarrow> int list \<Rightarrow> int list \<Rightarrow> string" where
  "total_sequence su encoded_prompt generated_sequence =
     (let tok = su_tokenizer su;
          text = decode tok generated_sequence;
          text' = truncate_at_stop (arg_stop_token (su_args su)) text
      in su_prompt_text su @ slice_from text' (length (decode tok encoded_prompt)))"

text \<open>Python's true division by a float: \<^verbatim>\<open>ZeroDivisionError\<close> on a zero divisor.\<close>

definition true_div :: "rat \<Rightarrow> rat \<Rightarrow> error + rat" where
  "true_div a b = (if b = 0 then Inl ZeroDivisionError else Inr (a / b))"

text \<open>
  \<^verbatim>\<open>
  input_sequences = input_ids.to('cpu').detach().numpy().tolist()
  record = {
      "latency": runtime,
      "warmup": True if i < args.n_warmup_runs else False,
      "input_lengths": [len(seq) for seq in input_sequences],
      "output_lengths": [len(seq) for seq in output_sequences],
      "total_tokens": sum([len(output_sequence) for output_sequence in output_sequences]),
      "batch_size": len(output_sequences),
      "max_length": max_length,
      "max_new_tokens": args.max_new_tokens,
      "min_new_tokens": args.min_new_tokens,
  }
  record["tokens_per_second"] = record["total_tokens"] / record["latency"]
  if args.output_sequences:
      record["input_sequences"] = input_ids.to('cpu').detach().numpy().tolist()
      record["output_sequences"] = output_sequences.tolist()
      record["outputs"] = generated_sequences
  \<close>
  \<^verbatim>\<open>input_ids.to\<close> raises \<^verbatim>\<open>AttributeError\<close> when \<^verbatim>\<open>input_ids\<close> is \<^verbatim>\<open>None\<close>.
\<close>

definition populate_record ::
  "args \<Rightarrow> nat \<Rightarrow> rat \<Rightarrow> int list option \<Rightarrow> int \<Rightarrow> int list list \<Rightarrow> string list
     \<Rightarrow> error + bench_record" where
  "populate_record args i runtime input_ids max_length' output_sequences' generated_sequences =
     (case input_ids of
        None \<Rightarrow> Inl AttributeError
      | Some ids \<Rightarrow>
          (let input_sequences' = [ids];
               total = sum_list (map length output_sequences')
           in case true_div (of_nat total) runtime of
                Inl e \<Rightarrow> Inl e
              | Inr tps \<Rightarrow>
                  Inr \<lparr> latency = runtime,
                        warmup = (if int i < arg_n_warmup_runs args then True else False),
                        input_lengths = map length input_sequences',
                        output_lengths = map length output_sequences',
                        total_tokens = total,
                        batch_size = length output_sequences',
                        max_length = max_length',
                        max_new_tokens = arg_max_new_tokens args,
                        min_new_tokens = arg_min_new_tokens args,
                        tokens_per_second = tps,
                        input_sequences =
                          (if arg_output_sequences args then Some input_sequences' else None),
                        output_sequences =
                          (if arg_output_sequences args then Some output_sequences' else None),
                        outputs =
                          (if arg_output_sequences args then Some generated_sequences else None) \<rparr>))"

text \<open>
  The keyword arguments of the call of \<^verbatim>\<open>model.generate\<close> in iteration \<open>i\<close>.
\<close>

definition generate_kwargs :: "bench_setup \<Rightarrow> int list option \<Rightarrow> int \<Rightarrow> generate_call" where
  "generate_kwargs su input_ids max_length' =
     (let args = su_args su in
      \<lparr> g_use_cache = su_use_cache su,
        g_input_ids = input_ids,
        g_max_length = max_length',
        g_max_new_tokens = arg_max_new_tokens args,
        g_min_new_tokens = arg_min_new_tokens args,
        g_temperature = arg_temperature args,
        g_top_k = arg_k args,
        g_top_p = arg_p args,
        g_repetition_penalty = arg_repetition_penalty args,
        g_do_sample = True,
        g_num_return_sequences = arg_num_return_sequences args \<rparr>)"

text \<open>
  The body of the loop for index \<open>i\<close>: tokenize, generate, decode, time, build the record.
  With \<^verbatim>\<open>--same_seed\<close> the seed is set again before every generation; without it the
  random state is the one left by the \<open>i\<close> earlier generations. The output tensor of
  \<^verbatim>\<open>generate\<close> has two dimensions, so the \<^verbatim>\<open>squeeze_\<close> branch is never taken.
\<close>

definition iteration :: "bench_setup \<Rightarrow> nat \<Rightarrow> string list \<Rightarrow> error + (bench_record \<times> string list)" where
  "iteration su i lines =
     (let args = su_args su in
      case tokenize_prompt su lines of
        Inl e \<Rightarrow> Inl e
      | Inr (encoded_prompt, lines') \<Rightarrow>
          (let input_ids = input_ids_of encoded_prompt;
               max_length' = arg_length args + int (length encoded_prompt)
           in case generate (su_model su)
                     (arg_seed args, if arg_same_seed args then 0 else i)
                     (generate_kwargs su input_ids max_length') of
                Inl e \<Rightarrow> Inl e
              | Inr output_sequences' \<Rightarrow>
                  (let generated_sequences =
                         map (total_sequence su encoded_prompt) output_sequences';
                       runtime = su_elapsed su i
                   in case populate_record args i runtime input_ids max_length'
                             output_sequences' generated_sequences of
                        Inl e \<Rightarrow> Inl e
                      | Inr record \<Rightarrow> Inr (record, lines'))))"

subsection \<open>The benchmark loop and the metrics\<close>

text \<open>
  \<^verbatim>\<open>
  records = []
  for i in tqdm(range(args.n_warmup_runs + args.n_runs)):
      ...
      records.append(record)
  \<close>
  \<open>run_iterations\<close> runs the body over the indices still to do, with the lines still on
  standard input and the records so far; an exception ends the loop.
\<close>

fun run_iterations ::
  "bench_setup \<Rightarrow> nat list \<Rightarrow> string list \<Rightarrow> bench_record list
     \<Rightarrow> error + (bench_record list \<times> string list)" where
  "run_iterations su [] lines records = Inr (records, lines)"
| "run_iterations su (i # is) lines records =
     (case iteration su i lines of
        Inl e \<Rightarrow> Inl e
      | Inr (record, lines') \<Rightarrow> run_iterations su is lines' (records @ [record]))"

definition benchmark :: "bench_setup \<Rightarrow> string list \<Rightarrow> error + (bench_record list \<times> string list)" where
  "benchmark su lines =
     (let args = su_args su in
      run_iterations su [0 ..< nat (arg_n_warmup_runs args + arg_n_runs args)] lines [])"

text \<open>
  \<^verbatim>\<open>
  metrics = {
      "median_warmup_tokens_per_second": statistics.median(
          [rec['tokens_per_second'] for rec in records if rec["warmup"]==True] ),
      "median_tokens_per_second": statistics.median(
          [rec['tokens_per_second'] for rec in records if rec["warmup"]==False] ),
  }
  \<close>
\<close>

definition populate_metrics :: "bench_record list \<Rightarrow> error + (string \<times> rat) list" where
  "populate_metrics records =
     (case median (map tokens_per_second (filter (\<lambda>rec. warmup rec = True) records)) of
        Inl e \<Rightarrow> Inl e
      | Inr median_warmup \<Rightarrow>
          (case median (map tokens_per_second (filter (\<lambda>rec. warmup rec = False) records)) of
             Inl e \<Rightarrow> Inl e
           | Inr median_measured \<Rightarrow>
               Inr [(''median_warmup_tokens_per_second'', median_warmup),
                    (''median_tokens_per_second'', median_measured)]))"

subsection \<open>The main routine\<close>

text \<open>
  \<^verbatim>\<open>
  if args.use_cache == "False":
      args.use_cache = False
  else:
      args.use_cache = True
  \<close>
\<close>

definition set_use_cache :: "string \<Rightarrow> bool" where
  "set_use_cache use_cache = (if use_cache = ''False'' then False else True)"

text \<open>
  \<^verbatim>\<open>
  if args.preset_prompt:
      prompt_file = os.path.abspath(os.path.join(os.path.dirname(__file__),
                                                 f'prompts/{args.preset_prompt}.txt'))
      if not os.path.isfile(prompt_file):
          raise ValueError(f"Prompt file does not exist: {prompt_file}")
      with open(prompt_file, 'r') as file:
          args.prompt = file.read()
  \<close>
\<close>

definition load_preset_prompt :: "args \<Rightarrow> world \<Rightarrow> error + args" where
  "load_preset_prompt args w =
     (case arg_preset_prompt args of
        None \<Rightarrow> Inr args
      | Some name \<Rightarrow>
          if name = [] then Inr args
          else (let prompt_file = script_dir w @ ''/prompts/'' @ name @ ''.txt'' in
                case prompt_files w name of
                  None \<Rightarrow> Inl (ValueError (''Prompt file does not exist: '' @ prompt_file))
                | Some content \<Rightarrow> Inr (args\<lparr>arg_prompt := content\<rparr>)))"

text \<open>
  The adapter \<^verbatim>\<open>_ModelFallbackWrapper(traced_model, model)\<close>: it generates with the
  traced model, reads every other attribute from the original model, and is of its own class.
\<close>

definition ModelFallbackWrapper ::
  "(int \<times> nat \<Rightarrow> generate_call \<Rightarrow> error + int list list) \<Rightarrow> model \<Rightarrow> model" where
  "ModelFallbackWrapper optimized default' =
     default'\<lparr>class_name := ''_ModelFallbackWrapper'', generate := optimized\<rparr>"

text \<open>\<^verbatim>\<open>prompt_text = args.prompt if args.prompt else input("Model prompt >>> ")\<close>\<close>

definition read_prompt :: "args \<Rightarrow> string list \<Rightarrow> error + (string \<times> string list)" where
  "read_prompt args lines =
     (if arg_prompt args \<noteq> [] then Inr (arg_prompt args, lines) else input_line lines)"

text \<open>
  \<^verbatim>\<open>main\<close>, from the parsed arguments on. The result is the list of effects on the
  outside, in order, and either the exception that ended the process or the records
  returned. Choosing the device and the precision, seeding and logging change none of the
  values below; writing the two files is taken to succeed.
\<close>

definition main :: "args \<Rightarrow> world \<Rightarrow> event list \<times> (error + bench_record list)" where
  "main args0 w =
     (let use_cache = set_use_cache (arg_use_cache args0) in
      case load_preset_prompt args0 w of
        Inl e \<Rightarrow> ([], Inl e)
      | Inr args1 \<Rightarrow>
      (case resolve_model_type (arg_model_type args1) of
        Inl e \<Rightarrow> ([], Inl e)
      | Inr (model_type, model_class, tokenizer_class) \<Rightarrow>
      (let args2 = args1\<lparr>arg_model_type := model_type\<rparr>;
           path = arg_model_name_or_path args2;
           ev1 = [LoadTokenizer tokenizer_class path]
       in case tokenizer_from_pretrained w tokenizer_class path of
        Inl e \<Rightarrow> (ev1, Inl e)
      | Inr tok \<Rightarrow>
      (let ev2 = ev1 @ [LoadModel model_class path]
       in case model_from_pretrained w model_class path of
        Inl e \<Rightarrow> (ev2, Inl e)
      | Inr m \<Rightarrow>
      (let max_seq_length = (case max_position_embeddings m of None \<Rightarrow> 0 | Some n \<Rightarrow> n);
           args3 = args2\<lparr>arg_length := adjust_length_to_model (arg_length args2) max_seq_length\<rparr>;
           ev3 = (if arg_jit args3 then ev2 @ [TraceModel] else ev2)
       in case (if arg_jit args3
                then (case jit_trace w m tok of
                        Inl e \<Rightarrow> Inl e
                      | Inr traced_model \<Rightarrow> Inr (ModelFallbackWrapper traced_model m))
                else Inr m) of
        Inl e \<Rightarrow> (ev3, Inl e)
      | Inr m' \<Rightarrow>
      (case read_prompt args3 (stdin w) of
        Inl e \<Rightarrow> (ev3, Inl e)
      | Inr (prompt_text, lines) \<Rightarrow>
      (let su = \<lparr> su_args = args3, su_use_cache = use_cache, su_tokenizer = tok,
                  su_model = m', su_prompt_text = prompt_text, su_elapsed = elapsed w \<rparr>
       in case benchmark su lines of
        Inl e \<Rightarrow> (ev3, Inl e)
      | Inr (records, lines') \<Rightarrow>
      (case populate_metrics records of
        Inl e \<Rightarrow> (ev3, Inl e)
      | Inr metrics \<Rightarrow>
          (ev3 @ [WriteRecords (arg_records_file args3) records,
                  WriteMetrics (arg_metrics_file args3) metrics],
           Inr records)))))))))"

subsection \<open>A small concrete run\<close>

text \<open>
  A toy tokenizer (one token per character, none for a space), a toy model (it appends two
  tokens to the prompt) and a toy outside world in which iteration \<open>i\<close> takes
  \<open>1 / (i + 1)\<close> seconds, on which the definitions above can be run; and the records
  that the loop builds there with one warmup run and two measured runs.
\<close>

definition demo_tokenizer :: tokenizer where
  "demo_tokenizer =
     \<lparr> encode = (\<lambda>b s. map (\<lambda>c. if c = CHR ''a'' then 1 else 2) (filter (\<lambda>c. c \<noteq> CHR '' '') s)),
       decode = (\<lambda>ids. map (\<lambda>t. if t = 1 then CHR ''a'' else CHR ''b'') ids),
       control_codes = [] \<rparr>"

definition demo_model :: model where
  "demo_model =
     \<lparr> class_name = ''GPT2LMHeadModel'',
       max_position_embeddings = Some 1024,
       use_lang_emb = False,
       lang2id = None,
       generate = (\<lambda>rng call. case g_input_ids call of
                                  None \<Rightarrow> Inr [[2, 2]]
                                | Some ids \<Rightarrow> Inr [ids @ [1, 2]]) \<rparr>"

definition demo_args :: args where
  "demo_args =
     \<lparr> arg_model_type = ''gpt2'',
       arg_model_name_or_path = ''gpt2'',
       arg_prompt = ''ab'',
       arg_length = 20,
       arg_stop_token = None,
       arg_temperature = 1,
       arg_repetition_penalty = 1,
       arg_k = 0,
       arg_p = 9 / 10,
       arg_prefix = [],
       arg_padding_text = [],
       arg_xlm_language = [],
       arg_seed = 42,
       arg_num_return_sequences = 1,
       arg_jit = False,
       arg_use_cache = ''True'',
       arg_n_warmup_runs = 1,
       arg_n_runs = 2,
       arg_output_sequences = False,
       arg_same_seed = False,
       arg_records_file = ''records.json'',
       arg_metrics_file = ''metrics.json'',
       arg_max_new_tokens = None,
       arg_min_new_tokens = None,
       arg_preset_prompt = None,
       arg_print_records = False \<rparr>"

definition demo_world :: world where
  "demo_world =
     \<lparr> script_dir = ''/opt/bench'',
       prompt_files = (\<lambda>name. None),
       tokenizer_from_pretrained = (\<lambda>c path. Inr demo_tokenizer),
       model_from_pretrained = (\<lambda>c path. Inr demo_model),
       jit_trace = (\<lambda>m tok. Inl (LibraryError ''tracing is not supported'')),
       elapsed = (\<lambda>i. 1 / (of_nat i + 1)),
       stdin = [] \<rparr>"

definition demo_setup :: bench_setup where
  "demo_setup =
     \<lparr> su_args = demo_args,
       su_use_cache = True,
       su_tokenizer = demo_tokenizer,
       su_model = demo_model,
       su_prompt_text = ''ab'',
       su_elapsed = (\<lambda>i. 1 / (of_nat i + 1)) \<rparr>"

definition demo_record :: "rat \<Rightarrow> bool \<Rightarrow> rat \<Rightarrow> bench_record" where
  "demo_record t w tps =
     \<lparr> latency = t, warmup = w, input_lengths = [2], output_lengths = [4],
       total_tokens = 4, batch_size = 1, max_length = 22,
       max_new_tokens = None, min_new_tokens = None, tokens_per_second = tps,
       input_sequences = None, output_sequences = None, outputs = None \<rparr>"

definition demo_records :: "bench_record list" where
  "demo_records =
     [demo_record 1 True 4, demo_record (1 / 2) False 8, demo_record (1 / 3) False 12]"

subsection \<open>The statistical median, as the specification has it\<close>

text \<open>
  The specification speaks of the statistical median of a group of values. Stated without
  sorting: \<open>x\<close> is the \<open>k\<close>-th smallest value (counting from 0) of \<open>xs\<close> when it occurs
  in \<open>xs\<close>, at most \<open>k\<close> values are below it and more than \<open>k\<close> values are not
  above it; the median of a non-empty group is the mean of its lower and upper middle values,
  which are the same value when the group has an odd number of members.
\<close>

definition is_kth_smallest :: "rat \<Rightarrow> nat \<Rightarrow> rat list \<Rightarrow> bool" where
  "is_kth_smallest x k xs =
     (x \<in> set xs \<and> length (filter (\<lambda>y. y < x) xs) \<le> k \<and> k < length (filter (\<lambda>y. y \<le> x) xs))"

definition is_statistical_median :: "rat \<Rightarrow> rat list \<Rightarrow> bool" where
  "is_statistical_median m xs =
     (xs \<noteq> [] \<and>
      (\<exists>lo \<in> set xs. \<exists>hi \<in> set xs.
         is_kth_smallest lo ((length xs - 1) div 2) xs \<and>
         is_kth_smallest hi (length xs div 2) xs \<and>
         m = (lo + hi) / 2))"


section \<open>Properties\<close>

subsection \<open>Records and the loop\<close>

lemma populate_record_Inr:
  assumes "populate_record args i runtime input_ids ml outs gens = Inr r"
  shows "runtime \<noteq> 0 \<and> input_ids \<noteq> None \<and> latency r = runtime
         \<and> warmup r = (int i < arg_n_warmup_runs args)
         \<and> total_tokens r = sum_list (map length outs)
         \<and> tokens_per_second r = of_nat (total_tokens r) / latency r"
  using assms
  by (auto simp: populate_record_def true_div_def Let_def split: option.splits if_splits)

lemma iteration_Inr:
  assumes "iteration su i lines = Inr (r, lines')"
  shows "\<exists>enc outs. tokenize_prompt su lines = Inr (enc, lines') \<and> enc \<noteq> []
           \<and> populate_record (su_args su) i (su_elapsed su i) (Some enc)
                (arg_length (su_args su) + int (length enc)) outs
                (map (total_sequence su enc) outs) = Inr r"
proof -
  from assms obtain enc where tok: "tokenize_prompt su lines = Inr (enc, lines')"
    by (auto simp: iteration_def Let_def split: sum.splits prod.splits)
  from assms tok obtain outs where
    pr: "populate_record (su_args su) i (su_elapsed su i) (input_ids_of enc)
           (arg_length (su_args su) + int (length enc)) outs
           (map (total_sequence su enc) outs) = Inr r"
    by (auto simp: iteration_def Let_def split: sum.splits)
  then have "input_ids_of enc \<noteq> None"
    by (cases "input_ids_of enc") (simp_all add: populate_record_def)
  then have ne: "enc \<noteq> []" and "input_ids_of enc = Some enc"
    by (auto simp: input_ids_of_def split: if_splits)
  with tok pr show ?thesis by auto
qed

lemma run_iterations_Inr:
  "run_iterations su is lines recs = Inr (out, lines') \<Longrightarrow>
     \<exists>new. out = recs @ new \<and> length new = length is
       \<and> (\<forall>k < length is. \<exists>l l2. iteration su (is ! k) l = Inr (new ! k, l2))"
proof (induction "is" arbitrary: lines recs)
  case Nil
  then show ?case by simp
next
  case (Cons i "is")
  from Cons.prems obtain r l1 where it: "iteration su i lines = Inr (r, l1)"
    and rest: "run_iterations su is l1 (recs @ [r]) = Inr (out, lines')"
    by (auto split: sum.splits prod.splits)
  from Cons.IH[OF rest] obtain new where new: "out = (recs @ [r]) @ new" "length new = length is"
    "\<forall>k < length is. \<exists>l l2. iteration su (is ! k) l = Inr (new ! k, l2)" by blast
  have "\<forall>k < length (i # is). \<exists>l l2. iteration su ((i # is) ! k) l = Inr ((r # new) ! k, l2)"
  proof (intro allI impI)
    fix k assume "k < length (i # is)"
    then show "\<exists>l l2. iteration su ((i # is) ! k) l = Inr ((r # new) ! k, l2)"
      using it new(3) by (cases k) auto
  qed
  with new show ?case by (intro exI[of _ "r # new"]) simp
qed

lemma benchmark_Inr:
  assumes "benchmark su lines = Inr (recs, lines')"
  shows "length recs = nat (arg_n_warmup_runs (su_args su) + arg_n_runs (su_args su))
     \<and> (\<forall>k < length recs. \<exists>l l2. iteration su k l = Inr (recs ! k, l2))"
proof -
  let ?n = "nat (arg_n_warmup_runs (su_args su) + arg_n_runs (su_args su))"
  from assms have "run_iterations su [0 ..< ?n] lines [] = Inr (recs, lines')"
    by (simp add: benchmark_def Let_def)
  from run_iterations_Inr[OF this] obtain new where
    "recs = new" "length new = ?n"
    "\<forall>k < length [0 ..< ?n]. \<exists>l l2. iteration su ([0 ..< ?n] ! k) l = Inr (new ! k, l2)"
    by auto
  then show ?thesis by auto
qed

lemma benchmark_warmup:
  assumes "benchmark su lines = Inr (recs, lines')" and "k < length recs"
  shows "warmup (recs ! k) = (int k < arg_n_warmup_runs (su_args su))"
proof -
  from benchmark_Inr[OF assms(1)] assms(2) obtain l l2 where
    "iteration su k l = Inr (recs ! k, l2)" by blast
  from iteration_Inr[OF this] obtain enc outs where
    "populate_record (su_args su) k (su_elapsed su k) (Some enc)
                (arg_length (su_args su) + int (length enc)) outs
                (map (total_sequence su enc) outs) = Inr (recs ! k)" by blast
  from populate_record_Inr[OF this] show ?thesis by simp
qed

lemma run_iterations_total:
  assumes tok: "\<And>l. tokenize_prompt su l = Inr (enc, l)" and ne: "enc \<noteq> []"
    and gen: "\<And>i. i \<in> set is \<Longrightarrow> \<exists>outs. generate (su_model su)
                (arg_seed (su_args su), if arg_same_seed (su_args su) then 0 else i)
                (generate_kwargs su (Some enc) (arg_length (su_args su) + int (length enc))) = Inr outs"
    and clk: "\<And>i. i \<in> set is \<Longrightarrow> su_elapsed su i \<noteq> 0"
  shows "\<exists>out. run_iterations su is lines recs = Inr (out, lines)"
  using gen clk
proof (induction "is" arbitrary: recs)
  case Nil
  then show ?case by simp
next
  case (Cons i "is")
  from Cons.prems(1)[of i] obtain outs where g: "generate (su_model su)
                (arg_seed (su_args su), if arg_same_seed (su_args su) then 0 else i)
                (generate_kwargs su (Some enc) (arg_length (su_args su) + int (length enc))) = Inr outs"
    by auto
  from Cons.prems(2)[of i] have c: "su_elapsed su i \<noteq> 0" by simp
  have "\<exists>r. iteration su i lines = Inr (r, lines)"
    using tok[of lines] ne g c
    by (simp add: iteration_def Let_def input_ids_of_def populate_record_def true_div_def)
  then obtain r where it: "iteration su i lines = Inr (r, lines)" by blast
  from Cons.IH[of "recs @ [r]"] Cons.prems obtain out where
    "run_iterations su is lines (recs @ [r]) = Inr (out, lines)" by auto
  with it show ?case by simp
qed

subsection \<open>The median\<close>

lemma sorted_filter_less_nth:
  fixes s :: "rat list"
  assumes "sorted s" and "k < length s"
  shows "length (filter (\<lambda>y. y < s ! k) s) \<le> k"
proof -
  have "\<forall>y \<in> set (drop k s). \<not> y < s ! k"
  proof
    fix y assume "y \<in> set (drop k s)"
    then obtain j where "j < length (drop k s)" "y = drop k s ! j"
      by (auto simp: in_set_conv_nth)
    then have "y = s ! (k + j)" "k + j < length s" by auto
    with assms(1) have "s ! k \<le> y" by (simp add: sorted_nth_mono)
    then show "\<not> y < s ! k" by simp
  qed
  then have "filter (\<lambda>y. y < s ! k) (drop k s) = []" by (simp add: filter_empty_conv)
  moreover have "filter (\<lambda>y. y < s ! k) s
      = filter (\<lambda>y. y < s ! k) (take k s) @ filter (\<lambda>y. y < s ! k) (drop k s)"
    by (simp flip: filter_append)
  ultimately have "length (filter (\<lambda>y. y < s ! k) s) = length (filter (\<lambda>y. y < s ! k) (take k s))"
    by simp
  also have "\<dots> \<le> length (take k s)" by (rule length_filter_le)
  also have "\<dots> \<le> k" by simp
  finally show ?thesis .
qed

lemma sorted_filter_le_nth:
  fixes s :: "rat list"
  assumes "sorted s" and "k < length s"
  shows "k < length (filter (\<lambda>y. y \<le> s ! k) s)"
proof -
  have "\<forall>y \<in> set (take (Suc k) s). y \<le> s ! k"
  proof
    fix y assume "y \<in> set (take (Suc k) s)"
    then obtain j where "j < length (take (Suc k) s)" "y = take (Suc k) s ! j"
      by (auto simp: in_set_conv_nth)
    then have "y = s ! j" "j \<le> k" by auto
    with assms show "y \<le> s ! k" by (simp add: sorted_nth_mono)
  qed
  then have "filter (\<lambda>y. y \<le> s ! k) (take (Suc k) s) = take (Suc k) s" by simp
  moreover have "filter (\<lambda>y. y \<le> s ! k) s
      = filter (\<lambda>y. y \<le> s ! k) (take (Suc k) s) @ filter (\<lambda>y. y \<le> s ! k) (drop (Suc k) s)"
    by (simp flip: filter_append)
  ultimately have "length (filter (\<lambda>y. y \<le> s ! k) s) \<ge> length (take (Suc k) s)"
    by simp
  with assms(2) show ?thesis by simp
qed

lemma length_filter_sort:
  fixes xs :: "rat list"
  shows "length (filter P (sort xs)) = length (filter P xs)"
  by (simp add: filter_sort)

lemma sort_nth_is_kth_smallest:
  assumes "k < length xs"
  shows "is_kth_smallest (sort xs ! k) k xs"
proof -
  let ?s = "sort xs"
  have s: "sorted ?s" and k: "k < length ?s" using assms by simp_all
  have "?s ! k \<in> set ?s" using k by (rule nth_mem)
  then have mem: "?s ! k \<in> set xs" by simp
  from sorted_filter_less_nth[OF s k] have a: "length (filter (\<lambda>y. y < ?s ! k) xs) \<le> k"
    by (simp only: length_filter_sort)
  from sorted_filter_le_nth[OF s k] have b: "k < length (filter (\<lambda>y. y \<le> ?s ! k) xs)"
    by (simp only: length_filter_sort)
  from mem a b show ?thesis by (simp add: is_kth_smallest_def)
qed

lemma length_filter_mono:
  assumes "\<And>x. x \<in> set xs \<Longrightarrow> P x \<Longrightarrow> Q x"
  shows "length (filter P xs) \<le> length (filter Q xs)"
  using assms by (induction xs) auto

lemma is_kth_smallest_unique:
  assumes "is_kth_smallest x k xs" and "is_kth_smallest y k xs"
  shows "x = y"
proof (rule ccontr)
  assume "x \<noteq> y"
  then consider "x < y" | "y < x" by fastforce
  then show False
  proof cases
    case 1
    then have "length (filter (\<lambda>z. z \<le> x) xs) \<le> length (filter (\<lambda>z. z < y) xs)"
      by (intro length_filter_mono) auto
    with assms show False by (simp add: is_kth_smallest_def)
  next
    case 2
    then have "length (filter (\<lambda>z. z \<le> y) xs) \<le> length (filter (\<lambda>z. z < x) xs)"
      by (intro length_filter_mono) auto
    with assms show False by (simp add: is_kth_smallest_def)
  qed
qed

lemma is_statistical_median_unique:
  assumes "is_statistical_median m xs" and "is_statistical_median m' xs"
  shows "m = m'"
  using assms unfolding is_statistical_median_def
  by (metis is_kth_smallest_unique)

lemma sort_eq_Nil_iff:
  fixes xs :: "rat list"
  shows "sort xs = [] \<longleftrightarrow> xs = []"
  by (metis length_0_conv length_sort)

lemma median_unfold:
  "median xs =
     (if xs = [] then Inl StatisticsError
      else if length xs mod 2 = 1 then Inr (sort xs ! (length xs div 2))
      else Inr ((sort xs ! (length xs div 2 - 1) + sort xs ! (length xs div 2)) / 2))"
  by (simp add: median_def Let_def sort_eq_Nil_iff)

lemma median_empty: "median [] = Inl StatisticsError"
  by (simp add: median_unfold)

lemma median_nonempty:
  assumes "xs \<noteq> []"
  shows "\<exists>m. median xs = Inr m"
proof (cases "length xs mod 2 = 1")
  case True
  with assms have "median xs = Inr (sort xs ! (length xs div 2))"
    by (simp add: median_unfold)
  then show ?thesis by blast
next
  case False
  with assms have
    "median xs = Inr ((sort xs ! (length xs div 2 - 1) + sort xs ! (length xs div 2)) / 2)"
    by (simp add: median_unfold)
  then show ?thesis by blast
qed

lemma median_Inl: "median xs = Inl e \<Longrightarrow> xs = [] \<and> e = StatisticsError"
  by (simp add: median_unfold split: if_splits)

lemma median_is_statistical_median:
  assumes "median xs = Inr m"
  shows "is_statistical_median m xs"
proof -
  let ?s = "sort xs" and ?n = "length xs"
  from assms have ne: "xs \<noteq> []" by (auto simp: median_unfold)
  then have n: "0 < ?n" by simp
  have lo: "is_kth_smallest (?s ! ((?n - 1) div 2)) ((?n - 1) div 2) xs"
    using n by (intro sort_nth_is_kth_smallest) arith
  have hi: "is_kth_smallest (?s ! (?n div 2)) (?n div 2) xs"
    using n by (intro sort_nth_is_kth_smallest) arith
  have m: "m = (?s ! ((?n - 1) div 2) + ?s ! (?n div 2)) / 2"
  proof (cases "?n mod 2 = 1")
    case True
    then have "(?n - 1) div 2 = ?n div 2" by presburger
    moreover from assms True ne have "m = ?s ! (?n div 2)"
      by (simp add: median_unfold)
    ultimately show ?thesis by simp
  next
    case False
    then have "(?n - 1) div 2 = ?n div 2 - 1" using n by presburger
    moreover from assms False ne have "m = (?s ! (?n div 2 - 1) + ?s ! (?n div 2)) / 2"
      by (simp add: median_unfold)
    ultimately show ?thesis by simp
  qed
  have "?s ! ((?n - 1) div 2) \<in> set xs" "?s ! (?n div 2) \<in> set xs"
    using lo hi by (simp_all add: is_kth_smallest_def)
  with ne lo hi m show ?thesis unfolding is_statistical_median_def by blast
qed

lemma populate_metrics_Inr:
  assumes "populate_metrics records = Inr metrics"
  shows "\<exists>mw mm. median (map tokens_per_second (filter (\<lambda>rec. warmup rec = True) records)) = Inr mw
      \<and> median (map tokens_per_second (filter (\<lambda>rec. warmup rec = False) records)) = Inr mm
      \<and> metrics = [(''median_warmup_tokens_per_second'', mw), (''median_tokens_per_second'', mm)]"
  using assms by (auto simp: populate_metrics_def split: sum.splits)

lemma populate_metrics_Inl:
  assumes "filter (\<lambda>rec. warmup rec = True) records = [] \<or> filter (\<lambda>rec. warmup rec = False) records = []"
  shows "populate_metrics records = Inl StatisticsError"
  using assms by (auto simp: populate_metrics_def median_empty split: sum.splits dest: median_Inl)

lemma populate_metrics_total:
  assumes "filter (\<lambda>rec. warmup rec = True) records \<noteq> []"
    and "filter (\<lambda>rec. warmup rec = False) records \<noteq> []"
  shows "\<exists>metrics. populate_metrics records = Inr metrics"
proof -
  from assms(1) obtain mw where
    "median (map tokens_per_second (filter (\<lambda>rec. warmup rec = True) records)) = Inr mw"
    using median_nonempty[of "map tokens_per_second (filter (\<lambda>rec. warmup rec = True) records)"]
    by auto
  moreover from assms(2) obtain mm where
    "median (map tokens_per_second (filter (\<lambda>rec. warmup rec = False) records)) = Inr mm"
    using median_nonempty[of "map tokens_per_second (filter (\<lambda>rec. warmup rec = False) records)"]
    by auto
  ultimately show ?thesis by (simp add: populate_metrics_def)
qed


subsection \<open>The toy run, evaluated\<close>

lemma demo_benchmark: "benchmark demo_setup [] = Inr (demo_records, [])"
  by (simp add: benchmark_def iteration_def tokenize_prompt_def PREPROCESSING_FUNCTIONS_def demo_setup_def
      demo_args_def demo_tokenizer_def demo_model_def input_ids_of_def generate_kwargs_def
      populate_record_def true_div_def demo_record_def demo_records_def Let_def upt_rec)

lemma demo_tokenize: "tokenize_prompt demo_setup l = Inr ([1, 2], l)"
  by (simp add: tokenize_prompt_def PREPROCESSING_FUNCTIONS_def demo_setup_def
      demo_args_def demo_tokenizer_def Let_def)

subsection \<open>The shape of the record list\<close>

lemma map_warmup_flags:
  assumes len: "length recs = nat (W + R)" and W: "0 \<le> W" and R: "0 \<le> R"
    and flag: "\<And>k. k < length recs \<Longrightarrow> warmup (recs ! k) = (int k < W)"
  shows "map warmup recs = replicate (nat W) True @ replicate (nat R) False"
proof (rule nth_equalityI)
  show "length (map warmup recs) = length (replicate (nat W) True @ replicate (nat R) False)"
    using len W R by (simp add: nat_add_distrib)
next
  fix k assume "k < length (map warmup recs)"
  then have k: "k < length recs" by simp
  then have "map warmup recs ! k = (int k < W)" using flag by simp
  also have "\<dots> = (replicate (nat W) True @ replicate (nat R) False) ! k"
    using k len W R by (auto simp: nth_append nat_add_distrib)
  finally show "map warmup recs ! k = (replicate (nat W) True @ replicate (nat R) False) ! k" .
qed


text \<open>
  C1. With \<open>W\<close> warmup runs and \<open>R\<close> measured runs, both non-negative, every record
  list that the benchmark loop returns has \<open>W + R\<close> entries, the first \<open>W\<close> flagged as
  warmup and the \<open>R\<close> after them not flagged, with nothing between or shared. The loop
  does return such a list whenever tokenizing gives a non-empty encoding without reading
  standard input, every generation call succeeds and no iteration takes zero time.
\<close>

theorem benchmark_warmup_then_measured:
  assumes "0 \<le> arg_n_warmup_runs (su_args su)" and "0 \<le> arg_n_runs (su_args su)"
  shows "(\<forall>recs lines'. benchmark su lines = Inr (recs, lines') \<longrightarrow>
            length recs = nat (arg_n_warmup_runs (su_args su)) + nat (arg_n_runs (su_args su))
            \<and> map warmup recs = replicate (nat (arg_n_warmup_runs (su_args su))) True
                                @ replicate (nat (arg_n_runs (su_args su))) False)
       \<and> ((\<forall>l. tokenize_prompt su l = Inr (enc, l)) \<and> enc \<noteq> []
            \<and> (\<forall>i < nat (arg_n_warmup_runs (su_args su) + arg_n_runs (su_args su)).
                  su_elapsed su i \<noteq> 0
                  \<and> (\<exists>outs. generate (su_model su)
                        (arg_seed (su_args su), if arg_same_seed (su_args su) then 0 else i)
                        (generate_kwargs su (Some enc) (arg_length (su_args su) + int (length enc)))
                      = Inr outs))
          \<longrightarrow> (\<exists>recs. benchmark su lines = Inr (recs, lines)))"
proof (intro conjI allI impI)
  fix recs lines'
  assume b: "benchmark su lines = Inr (recs, lines')"
  from benchmark_Inr[OF b]
  have len: "length recs = nat (arg_n_warmup_runs (su_args su) + arg_n_runs (su_args su))"
    by simp
  with assms show "length recs = nat (arg_n_warmup_runs (su_args su)) + nat (arg_n_runs (su_args su))"
    by (simp add: nat_add_distrib)
  show "map warmup recs = replicate (nat (arg_n_warmup_runs (su_args su))) True
                                @ replicate (nat (arg_n_runs (su_args su))) False"
    using len assms benchmark_warmup[OF b] by (rule map_warmup_flags)
next
  assume h: "(\<forall>l. tokenize_prompt su l = Inr (enc, l)) \<and> enc \<noteq> []
            \<and> (\<forall>i < nat (arg_n_warmup_runs (su_args su) + arg_n_runs (su_args su)).
                  su_elapsed su i \<noteq> 0
                  \<and> (\<exists>outs. generate (su_model su)
                        (arg_seed (su_args su), if arg_same_seed (su_args su) then 0 else i)
                        (generate_kwargs su (Some enc) (arg_length (su_args su) + int (length enc)))
                      = Inr outs))"
  let ?n = "nat (arg_n_warmup_runs (su_args su) + arg_n_runs (su_args su))"
  have "\<exists>out. run_iterations su [0 ..< ?n] lines [] = Inr (out, lines)"
    using h by (intro run_iterations_total[where enc = enc]) auto
  then show "\<exists>recs. benchmark su lines = Inr (recs, lines)"
    by (simp add: benchmark_def Let_def)
qed

theorem benchmark_warmup_then_measured_witness:
  "benchmark demo_setup [] = Inr (demo_records, [])
   \<and> length demo_records = 3
   \<and> map warmup demo_records = [True, False, False]
   \<and> (\<exists>recs. benchmark demo_setup [] = Inr (recs, []))"
proof -
  have w: "0 \<le> arg_n_warmup_runs (su_args demo_setup)"
    and r: "0 \<le> arg_n_runs (su_args demo_setup)"
    by (simp_all add: demo_setup_def demo_args_def)
  note inst = benchmark_warmup_then_measured[OF w r, of "[]" "[1, 2]"]
  have b: "benchmark demo_setup [] = Inr (demo_records, [])" by (rule demo_benchmark)
  from inst b
  have "length demo_records
          = nat (arg_n_warmup_runs (su_args demo_setup)) + nat (arg_n_runs (su_args demo_setup))
        \<and> map warmup demo_records
          = replicate (nat (arg_n_warmup_runs (su_args demo_setup))) True
            @ replicate (nat (arg_n_runs (su_args demo_setup))) False"
    by blast
  then have flags: "length demo_records = 3 \<and> map warmup demo_records = [True, False, False]"
    by (simp add: demo_setup_def demo_args_def numeral_2_eq_2 numeral_3_eq_3)
  have tok: "\<forall>l. tokenize_prompt demo_setup l = Inr ([1, 2], l)"
    by (simp add: demo_tokenize)
  have clock: "\<forall>i. su_elapsed demo_setup i \<noteq> 0"
  proof
    fix i :: nat
    have "0 < (of_nat i + 1 :: rat)" by (simp add: add_nonneg_pos)
    then show "su_elapsed demo_setup i \<noteq> 0" by (simp add: demo_setup_def)
  qed
  have gen: "\<forall>i. \<exists>outs. generate (su_model demo_setup)
                (arg_seed (su_args demo_setup), if arg_same_seed (su_args demo_setup) then 0 else i)
                (generate_kwargs demo_setup (Some [1, 2])
                   (arg_length (su_args demo_setup) + int (length [1, 2 :: int]))) = Inr outs"
    by (simp add: demo_setup_def demo_model_def generate_kwargs_def)
  from inst tok clock gen have "\<exists>recs. benchmark demo_setup [] = Inr (recs, [])"
    by blast
  with b flags show ?thesis by simp
qed

subsection \<open>Tokens per second\<close>

lemma benchmark_record_fields:
  assumes "benchmark su lines = Inr (recs, lines')" and "r \<in> set recs"
  shows "latency r \<noteq> 0 \<and> tokens_per_second r = of_nat (total_tokens r) / latency r"
proof -
  from assms(2) obtain k where k: "k < length recs" "r = recs ! k"
    by (auto simp: in_set_conv_nth)
  with benchmark_Inr[OF assms(1)] obtain l l2 where "iteration su k l = Inr (r, l2)" by blast
  from iteration_Inr[OF this] obtain enc outs where
    "populate_record (su_args su) k (su_elapsed su k) (Some enc)
       (arg_length (su_args su) + int (length enc)) outs
       (map (total_sequence su enc) outs) = Inr r" by blast
  from populate_record_Inr[OF this] show ?thesis by simp
qed

lemma iteration_zero_latency:
  assumes "su_elapsed su i = 0"
  shows "\<exists>e. iteration su i lines = Inl e"
proof (cases "iteration su i lines")
  case (Inl e)
  then show ?thesis by blast
next
  case (Inr p)
  obtain r l where "p = (r, l)" by (cases p)
  with Inr have "iteration su i lines = Inr (r, l)" by simp
  from iteration_Inr[OF this] obtain enc outs where
    "populate_record (su_args su) i (su_elapsed su i) (Some enc)
       (arg_length (su_args su) + int (length enc)) outs
       (map (total_sequence su enc) outs) = Inr r" by blast
  from populate_record_Inr[OF this] assms show ?thesis by simp
qed

text \<open>
  C2. In every record that the benchmark loop builds, the tokens-per-second field is the
  total-tokens field divided by the latency field; the latency of such a record is never
  zero (so this covers every record with a positive latency). The division is not guarded:
  when an iteration takes zero time it builds no record, and building the record from a
  zero latency raises \<^verbatim>\<open>ZeroDivisionError\<close>.
\<close>

theorem tokens_per_second_quotient:
  "(\<forall>recs lines' r. benchmark su lines = Inr (recs, lines') \<and> r \<in> set recs \<longrightarrow>
       latency r \<noteq> 0 \<and> tokens_per_second r = of_nat (total_tokens r) / latency r)
   \<and> (su_elapsed su i = 0 \<longrightarrow> (\<exists>e. iteration su i lines = Inl e))
   \<and> populate_record args i 0 (Some ids) ml outs gens = Inl ZeroDivisionError"
proof (intro conjI allI impI)
  fix recs lines' r
  assume "benchmark su lines = Inr (recs, lines') \<and> r \<in> set recs"
  then show "latency r \<noteq> 0" "tokens_per_second r = of_nat (total_tokens r) / latency r"
    using benchmark_record_fields by blast+
next
  assume "su_elapsed su i = 0"
  then show "\<exists>e. iteration su i lines = Inl e" by (rule iteration_zero_latency)
next
  show "populate_record args i 0 (Some ids) ml outs gens = Inl ZeroDivisionError"
    by (simp add: populate_record_def true_div_def)
qed

theorem tokens_per_second_quotient_witness:
  "benchmark demo_setup [] = Inr (demo_records, [])
   \<and> demo_record (1 / 2) False 8 \<in> set demo_records
   \<and> latency (demo_record (1 / 2) False 8) = 1 / 2
   \<and> total_tokens (demo_record (1 / 2) False 8) = 4
   \<and> tokens_per_second (demo_record (1 / 2) False 8) = 4 / (1 / 2)
   \<and> su_elapsed (demo_setup\<lparr>su_elapsed := \<lambda>i. 0\<rparr>) 0 = 0
   \<and> iteration (demo_setup\<lparr>su_elapsed := \<lambda>i. 0\<rparr>) 0 [] = Inl ZeroDivisionError"
proof -
  have b: "benchmark demo_setup [] = Inr (demo_records, [])" by (rule demo_benchmark)
  have m: "demo_record (1 / 2) False 8 \<in> set demo_records" by (simp add: demo_records_def)
  from tokens_per_second_quotient[where su = demo_setup and lines = "[]"] b m
  have "tokens_per_second (demo_record (1 / 2) False 8)
          = of_nat (total_tokens (demo_record (1 / 2) False 8)) / latency (demo_record (1 / 2) False 8)"
    by blast
  then have q: "tokens_per_second (demo_record (1 / 2) False 8) = 4 / (1 / 2)"
    by (simp add: demo_record_def)
  have z: "su_elapsed (demo_setup\<lparr>su_elapsed := \<lambda>i. 0\<rparr>) 0 = 0" by simp
  from tokens_per_second_quotient[where su = "demo_setup\<lparr>su_elapsed := \<lambda>i. 0\<rparr>" and i = 0 and lines = "[]"] z
  obtain e where e: "iteration (demo_setup\<lparr>su_elapsed := \<lambda>i. 0\<rparr>) 0 [] = Inl e" by blast
  have "iteration (demo_setup\<lparr>su_elapsed := \<lambda>i. 0\<rparr>) 0 [] = Inl ZeroDivisionError"
    by (simp add: iteration_def tokenize_prompt_def PREPROCESSING_FUNCTIONS_def demo_setup_def
      demo_args_def demo_tokenizer_def demo_model_def input_ids_of_def generate_kwargs_def
      populate_record_def true_div_def Let_def)
  with b m q z show ?thesis by (simp add: demo_record_def)
qed


subsection \<open>The metrics\<close>

lemma demo_metrics:
  "populate_metrics demo_records
     = Inr [(''median_warmup_tokens_per_second'', 4), (''median_tokens_per_second'', 10)]"
  by (simp add: populate_metrics_def median_def demo_records_def demo_record_def Let_def)


text \<open>
  C3. The metrics that are computed from a record list are exactly two entries, in this
  order: \<^verbatim>\<open>median_warmup_tokens_per_second\<close>, the statistical median of the
  tokens-per-second values of the records flagged as warmup, and
  \<^verbatim>\<open>median_tokens_per_second\<close>, the statistical median of those of the records not
  flagged. They are computed whenever both groups have a member.
\<close>

theorem metrics_are_group_medians:
  "(filter (\<lambda>rec. warmup rec = True) records \<noteq> [] \<and> filter (\<lambda>rec. warmup rec = False) records \<noteq> []
      \<longrightarrow> (\<exists>metrics. populate_metrics records = Inr metrics))
   \<and> (\<forall>metrics. populate_metrics records = Inr metrics \<longrightarrow>
        (\<exists>mw mm.
           metrics = [(''median_warmup_tokens_per_second'', mw), (''median_tokens_per_second'', mm)]
           \<and> is_statistical_median mw
                (map tokens_per_second (filter (\<lambda>rec. warmup rec = True) records))
           \<and> is_statistical_median mm
                (map tokens_per_second (filter (\<lambda>rec. warmup rec = False) records))))"
proof (intro conjI allI impI)
  assume "filter (\<lambda>rec. warmup rec = True) records \<noteq> [] \<and> filter (\<lambda>rec. warmup rec = False) records \<noteq> []"
  then show "\<exists>metrics. populate_metrics records = Inr metrics"
    using populate_metrics_total by blast
next
  fix metrics
  assume "populate_metrics records = Inr metrics"
  from populate_metrics_Inr[OF this] obtain mw mm where
    mw: "median (map tokens_per_second (filter (\<lambda>rec. warmup rec = True) records)) = Inr mw"
    and mm: "median (map tokens_per_second (filter (\<lambda>rec. warmup rec = False) records)) = Inr mm"
    and m: "metrics = [(''median_warmup_tokens_per_second'', mw), (''median_tokens_per_second'', mm)]"
    by blast
  from median_is_statistical_median[OF mw] median_is_statistical_median[OF mm] m
  show "\<exists>mw mm.
           metrics = [(''median_warmup_tokens_per_second'', mw), (''median_tokens_per_second'', mm)]
           \<and> is_statistical_median mw
                (map tokens_per_second (filter (\<lambda>rec. warmup rec = True) records))
           \<and> is_statistical_median mm
                (map tokens_per_second (filter (\<lambda>rec. warmup rec = False) records))"
    by blast
qed


theorem metrics_are_group_medians_witness:
  "populate_metrics demo_records
     = Inr [(''median_warmup_tokens_per_second'', 4), (''median_tokens_per_second'', 10)]
   \<and> is_statistical_median 4 [4]
   \<and> is_statistical_median 10 [8, 12]
   \<and> (\<exists>metrics. populate_metrics demo_records = Inr metrics)"
proof -
  have w: "map tokens_per_second (filter (\<lambda>rec. warmup rec = True) demo_records) = [4]"
    and m: "map tokens_per_second (filter (\<lambda>rec. warmup rec = False) demo_records) = [8, 12]"
    by (simp_all add: demo_records_def demo_record_def)
  have ne: "filter (\<lambda>rec. warmup rec = True) demo_records \<noteq> []
            \<and> filter (\<lambda>rec. warmup rec = False) demo_records \<noteq> []"
    by (simp add: demo_records_def demo_record_def)
  note inst = metrics_are_group_medians[of demo_records]
  from inst ne have ex: "\<exists>metrics. populate_metrics demo_records = Inr metrics" by blast
  from inst demo_metrics obtain mw mm where
    "[(''median_warmup_tokens_per_second'', 4 :: rat), (''median_tokens_per_second'', 10)]
       = [(''median_warmup_tokens_per_second'', mw), (''median_tokens_per_second'', mm)]"
    "is_statistical_median mw (map tokens_per_second (filter (\<lambda>rec. warmup rec = True) demo_records))"
    "is_statistical_median mm (map tokens_per_second (filter (\<lambda>rec. warmup rec = False) demo_records))"
    by blast
  then have "is_statistical_median 4 [4]" "is_statistical_median 10 [8, 12]"
    using w m by simp_all
  with demo_metrics ex show ?thesis by simp
qed

subsection \<open>An empty group\<close>

lemma benchmark_no_warmup_group:
  assumes "benchmark su lines = Inr (recs, lines')" and "arg_n_warmup_runs (su_args su) = 0"
  shows "filter (\<lambda>rec. warmup rec = True) recs = []"
proof -
  have "\<forall>r \<in> set recs. \<not> warmup r"
  proof
    fix r assume "r \<in> set recs"
    then obtain k where "k < length recs" "r = recs ! k" by (auto simp: in_set_conv_nth)
    with benchmark_warmup[OF assms(1)] assms(2) show "\<not> warmup r" by simp
  qed
  then show ?thesis by (simp add: filter_empty_conv)
qed

lemma benchmark_no_measured_group:
  assumes "benchmark su lines = Inr (recs, lines')" and "arg_n_runs (su_args su) = 0"
  shows "filter (\<lambda>rec. warmup rec = False) recs = []"
proof -
  from benchmark_Inr[OF assms(1)] assms(2)
  have len: "length recs = nat (arg_n_warmup_runs (su_args su))" by simp
  have "\<forall>r \<in> set recs. warmup r"
  proof
    fix r assume "r \<in> set recs"
    then obtain k where k: "k < length recs" "r = recs ! k" by (auto simp: in_set_conv_nth)
    with len have "int k < arg_n_warmup_runs (su_args su)" by simp
    with benchmark_warmup[OF assms(1) k(1)] k(2) show "warmup r" by simp
  qed
  then show ?thesis by (simp add: filter_empty_conv)
qed

lemma load_preset_prompt_runs:
  assumes "load_preset_prompt args w = Inr args1"
  shows "arg_n_warmup_runs args1 = arg_n_warmup_runs args \<and> arg_n_runs args1 = arg_n_runs args"
  using assms by (auto simp: load_preset_prompt_def Let_def split: option.splits if_splits)

lemma benchmark_empty_group_metrics:
  assumes "benchmark su lines = Inr (recs, lines')"
    and "arg_n_warmup_runs (su_args su) = 0 \<or> arg_n_runs (su_args su) = 0"
  shows "populate_metrics recs = Inl StatisticsError"
proof -
  from assms have "filter (\<lambda>rec. warmup rec = True) recs = []
      \<or> filter (\<lambda>rec. warmup rec = False) recs = []"
    using benchmark_no_warmup_group benchmark_no_measured_group by blast
  then show ?thesis by (rule populate_metrics_Inl)
qed

lemma main_empty_group:
  assumes "arg_n_warmup_runs args = 0 \<or> arg_n_runs args = 0"
  shows "\<exists>e. snd (main args w) = Inl e"
proof (cases "snd (main args w)")
  case (Inl e)
  then show ?thesis by blast
next
  case (Inr records)
  then obtain args1 where a1: "load_preset_prompt args w = Inr args1"
    by (cases "load_preset_prompt args w") (simp_all add: main_def)
  from load_preset_prompt_runs[OF a1] assms have zero:
    "arg_n_warmup_runs args1 = 0 \<or> arg_n_runs args1 = 0"
    by simp
  from Inr a1 zero have False
    by (auto simp: main_def Let_def split: sum.splits prod.splits if_splits
             dest!: benchmark_empty_group_metrics)
  then show ?thesis ..
qed

text \<open>
  C7. Computing the metrics raises \<^verbatim>\<open>StatisticsError\<close> whenever no record is flagged
  as warmup or no record is unflagged; this is the case for every record list that the loop
  returns when the number of warmup runs is 0 or the number of measured runs is 0, so that
  with such arguments \<^verbatim>\<open>main\<close> always ends with an exception.
\<close>

theorem median_fails_on_empty_group:
  "((filter (\<lambda>rec. warmup rec = True) records = [] \<or> filter (\<lambda>rec. warmup rec = False) records = [])
       \<longrightarrow> populate_metrics records = Inl StatisticsError)
   \<and> (\<forall>recs lines'.
         (arg_n_warmup_runs (su_args su) = 0 \<or> arg_n_runs (su_args su) = 0)
         \<and> benchmark su lines = Inr (recs, lines')
       \<longrightarrow> populate_metrics recs = Inl StatisticsError)
   \<and> (arg_n_warmup_runs args = 0 \<or> arg_n_runs args = 0 \<longrightarrow> (\<exists>e. snd (main args w) = Inl e))"
proof (intro conjI allI impI)
  assume "filter (\<lambda>rec. warmup rec = True) records = [] \<or> filter (\<lambda>rec. warmup rec = False) records = []"
  then show "populate_metrics records = Inl StatisticsError" by (rule populate_metrics_Inl)
next
  fix recs lines'
  assume h: "(arg_n_warmup_runs (su_args su) = 0 \<or> arg_n_runs (su_args su) = 0)
         \<and> benchmark su lines = Inr (recs, lines')"
  then show "populate_metrics recs = Inl StatisticsError"
    using benchmark_empty_group_metrics by blast
next
  assume "arg_n_warmup_runs args = 0 \<or> arg_n_runs args = 0"
  then show "\<exists>e. snd (main args w) = Inl e" by (rule main_empty_group)
qed


theorem median_fails_on_empty_group_witness:
  "filter (\<lambda>rec. warmup rec = True) (tl demo_records) = []
   \<and> populate_metrics (tl demo_records) = Inl StatisticsError
   \<and> arg_n_warmup_runs (su_args (demo_setup\<lparr>su_args := demo_args\<lparr>arg_n_warmup_runs := 0\<rparr>\<rparr>)) = 0
   \<and> benchmark (demo_setup\<lparr>su_args := demo_args\<lparr>arg_n_warmup_runs := 0\<rparr>\<rparr>) []
       = Inr ([demo_record 1 False 4, demo_record (1 / 2) False 8], [])
   \<and> populate_metrics [demo_record 1 False 4, demo_record (1 / 2) False 8] = Inl StatisticsError
   \<and> main (demo_args\<lparr>arg_n_warmup_runs := 0\<rparr>) demo_world
       = ([LoadTokenizer GPT2Tokenizer ''gpt2'', LoadModel GPT2LMHeadModel ''gpt2''],
          Inl StatisticsError)"
proof -
  let ?su = "demo_setup\<lparr>su_args := demo_args\<lparr>arg_n_warmup_runs := 0\<rparr>\<rparr>"
  have e: "filter (\<lambda>rec. warmup rec = True) (tl demo_records) = []"
    by (simp add: demo_records_def demo_record_def)
  have w: "arg_n_warmup_runs (su_args ?su) = 0" by simp
  have b: "benchmark ?su [] = Inr ([demo_record 1 False 4, demo_record (1 / 2) False 8], [])"
    by (simp add: benchmark_def iteration_def tokenize_prompt_def PREPROCESSING_FUNCTIONS_def
        demo_setup_def demo_args_def demo_tokenizer_def demo_model_def input_ids_of_def
        generate_kwargs_def populate_record_def true_div_def demo_record_def Let_def upt_rec)
  note inst = median_fails_on_empty_group[where records = "tl demo_records" and su = ?su
      and lines = "[]" and args = "demo_args\<lparr>arg_n_warmup_runs := 0\<rparr>" and w = demo_world]
  from inst e have p1: "populate_metrics (tl demo_records) = Inl StatisticsError" by blast
  from inst w b have p2:
    "populate_metrics [demo_record 1 False 4, demo_record (1 / 2) False 8] = Inl StatisticsError"
    by blast
  have "arg_n_warmup_runs (demo_args\<lparr>arg_n_warmup_runs := 0\<rparr>) = 0" by simp
  with inst obtain e' where "snd (main (demo_args\<lparr>arg_n_warmup_runs := 0\<rparr>) demo_world) = Inl e'"
    by blast
  moreover have "main (demo_args\<lparr>arg_n_warmup_runs := 0\<rparr>) demo_world
       = ([LoadTokenizer GPT2Tokenizer ''gpt2'', LoadModel GPT2LMHeadModel ''gpt2''],
          Inl StatisticsError)"
    by code_simp
  ultimately show ?thesis using e p1 w b p2 by blast
qed

subsection \<open>An empty encoded prompt\<close>

lemma iteration_empty_prompt:
  assumes "tokenize_prompt su lines = Inr ([], lines')"
  shows "iteration su i lines =
           (case generate (su_model su)
                   (arg_seed (su_args su), if arg_same_seed (su_args su) then 0 else i)
                   (generate_kwargs su None (arg_length (su_args su))) of
              Inl e \<Rightarrow> Inl e
            | Inr outs \<Rightarrow> Inl AttributeError)"
  using assms
  by (simp add: iteration_def Let_def input_ids_of_def populate_record_def split: sum.splits)

text \<open>
  C9. When the prompt encodes to no token, the generation routine is called without input
  (\<^verbatim>\<open>input_ids\<close> is \<^verbatim>\<open>None\<close>), and the iteration builds no record: if generation
  returns, reading the input lengths from \<^verbatim>\<open>None\<close> raises \<^verbatim>\<open>AttributeError\<close>, and
  otherwise the error of the generation routine ends the iteration. A loop of at least one
  iteration therefore ends with an error.
\<close>

theorem empty_prompt_no_record:
  assumes "tokenize_prompt su lines = Inr ([], lines')"
  shows "input_ids_of [] = None
    \<and> g_input_ids (generate_kwargs su (input_ids_of []) (arg_length (su_args su))) = None
    \<and> (\<forall>outs. generate (su_model su)
                  (arg_seed (su_args su), if arg_same_seed (su_args su) then 0 else i)
                  (generate_kwargs su None (arg_length (su_args su))) = Inr outs
          \<longrightarrow> iteration su i lines = Inl AttributeError)
    \<and> (\<exists>e. iteration su i lines = Inl e)
    \<and> (0 < arg_n_warmup_runs (su_args su) + arg_n_runs (su_args su)
          \<longrightarrow> (\<exists>e. benchmark su lines = Inl e))"
proof (intro conjI allI impI)
  show "input_ids_of [] = None" by (simp add: input_ids_of_def)
  show "g_input_ids (generate_kwargs su (input_ids_of []) (arg_length (su_args su))) = None"
    by (simp add: input_ids_of_def generate_kwargs_def Let_def)
  show fail: "\<exists>e. iteration su i lines = Inl e" for i
    by (simp add: iteration_empty_prompt[OF assms] split: sum.splits)
  {
    fix outs
    assume "generate (su_model su)
                  (arg_seed (su_args su), if arg_same_seed (su_args su) then 0 else i)
                  (generate_kwargs su None (arg_length (su_args su))) = Inr outs"
    then show "iteration su i lines = Inl AttributeError"
      by (simp add: iteration_empty_prompt[OF assms])
  }
  {
    assume pos: "0 < arg_n_warmup_runs (su_args su) + arg_n_runs (su_args su)"
    let ?n = "nat (arg_n_warmup_runs (su_args su) + arg_n_runs (su_args su))"
    from pos have "[0 ..< ?n] = 0 # [Suc 0 ..< ?n]" by (simp add: upt_conv_Cons)
    moreover from fail[of 0] obtain e where "iteration su 0 lines = Inl e" by blast
    ultimately have "benchmark su lines = Inl e" by (simp add: benchmark_def Let_def)
    then show "\<exists>e. benchmark su lines = Inl e" by blast
  }
qed

theorem empty_prompt_no_record_witness:
  "tokenize_prompt (demo_setup\<lparr>su_prompt_text := '' ''\<rparr>) [] = Inr ([], [])
   \<and> iteration (demo_setup\<lparr>su_prompt_text := '' ''\<rparr>) 0 [] = Inl AttributeError
   \<and> (\<exists>e. benchmark (demo_setup\<lparr>su_prompt_text := '' ''\<rparr>) [] = Inl e)"
proof -
  let ?su = "demo_setup\<lparr>su_prompt_text := '' ''\<rparr>"
  have t: "tokenize_prompt ?su [] = Inr ([], [])"
    by (simp add: tokenize_prompt_def PREPROCESSING_FUNCTIONS_def demo_setup_def
        demo_args_def demo_tokenizer_def Let_def)
  have g: "generate (su_model ?su)
             (arg_seed (su_args ?su), if arg_same_seed (su_args ?su) then 0 else 0)
             (generate_kwargs ?su None (arg_length (su_args ?su))) = Inr [[2, 2]]"
    by (simp add: demo_setup_def demo_model_def generate_kwargs_def Let_def)
  have pos: "0 < arg_n_warmup_runs (su_args ?su) + arg_n_runs (su_args ?su)"
    by (simp add: demo_setup_def demo_args_def)
  note inst = empty_prompt_no_record[OF t, of 0]
  from inst g have "iteration ?su 0 [] = Inl AttributeError" by blast
  moreover from inst pos have "\<exists>e. benchmark ?su [] = Inl e" by blast
  ultimately show ?thesis using t by blast
qed

subsection \<open>The stop token\<close>

lemma truncate_without_stop_token:
  "truncate_at_stop None text = text" "truncate_at_stop (Some []) text = text"
  by (simp_all add: truncate_at_stop_def stop_index_def slice_to_def)

lemma find_from_range: "find_from tx sub i = - 1 \<or> int i \<le> find_from tx sub i"
  by (induction tx sub i rule: find_from.induct) auto

lemma find_from_found:
  assumes "find_from tx sub i = int j"
  shows "i \<le> j \<and> j - i \<le> length tx
         \<and> take (length sub) (drop (j - i) tx) = sub
         \<and> (\<forall>m < j - i. take (length sub) (drop m tx) \<noteq> sub)"
  using assms
proof (induction tx sub i rule: find_from.induct)
  case (1 sub i)
  then show ?case by (auto split: if_splits)
next
  case (2 c cs sub i)
  show ?case
  proof (cases "take (length sub) (c # cs) = sub")
    case True
    with 2 show ?thesis by simp
  next
    case False
    with 2 have ih: "Suc i \<le> j \<and> j - Suc i \<le> length cs
         \<and> take (length sub) (drop (j - Suc i) cs) = sub
         \<and> (\<forall>m < j - Suc i. take (length sub) (drop m cs) \<noteq> sub)" by simp
    then have eq: "j - i = Suc (j - Suc i)" by arith
    have "\<forall>m < j - i. take (length sub) (drop m (c # cs)) \<noteq> sub"
    proof (intro allI impI)
      fix m assume "m < j - i"
      then show "take (length sub) (drop m (c # cs)) \<noteq> sub"
        using False ih eq by (cases m) auto
    qed
    with ih eq show ?thesis by simp
  qed
qed

lemma find_from_absent:
  assumes "find_from tx sub i = - 1"
  shows "\<forall>m \<le> length tx. take (length sub) (drop m tx) \<noteq> sub"
  using assms
proof (induction tx sub i rule: find_from.induct)
  case (1 sub i)
  then show ?case by (auto split: if_splits)
next
  case (2 c cs sub i)
  then have ne: "take (length sub) (c # cs) \<noteq> sub" and
    ih: "\<forall>m \<le> length cs. take (length sub) (drop m cs) \<noteq> sub"
    by (auto split: if_splits)
  show ?case
  proof (intro allI impI)
    fix m assume "m \<le> length (c # cs)"
    then show "take (length sub) (drop m (c # cs)) \<noteq> sub"
      using ne ih by (cases m) auto
  qed
qed

lemma truncate_at_found_stop:
  assumes "t \<noteq> []" and "find_str tx t = int k"
  shows "truncate_at_stop (Some t) tx = take k tx
         \<and> take (length t) (drop k tx) = t
         \<and> (\<forall>m < k. take (length t) (drop m tx) \<noteq> t)"
  using assms find_from_found[of tx t 0 k]
  by (simp add: truncate_at_stop_def stop_index_def slice_to_def find_str_def)

lemma truncate_at_absent_stop:
  assumes "t \<noteq> []" and "find_str tx t = - 1"
  shows "truncate_at_stop (Some t) tx = butlast tx"
  using assms
  by (simp add: truncate_at_stop_def stop_index_def slice_to_def butlast_conv_take nat_diff_distrib')

text \<open>
  C4. The claim: with a stop token given, the decoded text is cut at the stop token when it
  occurs and left unchanged when it does not. The code cuts at the first occurrence
  (\<open>truncate_at_found_stop\<close>) and leaves the text alone without a stop token
  (\<open>truncate_without_stop_token\<close>), but when the stop token does not occur,
  \<^verbatim>\<open>text.find\<close> gives \<open>-1\<close> and the slice \<^verbatim>\<open>text[:-1]\<close> drops the last character
  (\<open>truncate_at_absent_stop\<close>). Evaluated: the decoded text \<^verbatim>\<open>abc\<close> with the stop token
  \<^verbatim>\<open>x\<close> becomes \<^verbatim>\<open>ab\<close>, and in the toy run the displayed sequence \<^verbatim>\<open>abab\<close>
  becomes \<^verbatim>\<open>aba\<close>.
\<close>

theorem stop_token_absent_drops_last_character:
  "find_str ''abc'' ''x'' = - 1
   \<and> truncate_at_stop (Some ''x'') ''abc'' = ''ab''
   \<and> total_sequence (demo_setup\<lparr>su_args := demo_args\<lparr>arg_stop_token := Some ''x''\<rparr>\<rparr>)
        [1, 2] [1, 2, 1, 2] = ''aba''
   \<and> total_sequence demo_setup [1, 2] [1, 2, 1, 2] = ''abab''"
  by (simp add: truncate_at_stop_def stop_index_def find_str_def slice_to_def slice_from_def
      total_sequence_def demo_setup_def demo_args_def demo_tokenizer_def Let_def)

subsection \<open>The cache flag\<close>



subsection \<open>Resolving the model type\<close>



















subsection \<open>Length adjustment\<close>

text \<open>
  C5. \<open>adjust_length_to_model\<close> at length \<open>-1\<close> and model size \<open>0\<close> gives the fixed
  fallback bound 10000; at length 50 and model size 20 it gives 20; at length 10 and model
  size 20 it gives 10.
\<close>

theorem adjust_length_to_model_examples:
  "adjust_length_to_model (-1) 0 = 10000
   \<and> adjust_length_to_model 50 20 = 20
   \<and> adjust_length_to_model 10 20 = 10"
  by (simp add: adjust_length_to_model_def MAX_LENGTH_def)

end
